theory Spec2Isabelle
  imports Main
begin

section \<open>The room tables of app/model.py\<close>

text \<open>
  The functions of \<^verbatim>\<open>app/model.py\<close> read and write three SQL tables through
  \<^verbatim>\<open>engine.begin()\<close> transactions. A table is the list of its rows in insertion
  order, the database is a record of the tables, and a function that writes returns the
  database it leaves behind. An exception is a value of \<open>error\<close>; a transaction that
  raises is rolled back, so the database comes back unchanged beside it.
  A function of the module is first given as the result of a call that runs with no other
  call in between. \<^verbatim>\<open>join_room\<close> spreads its reads and writes over several
  transactions, and the request handlers of \<^verbatim>\<open>app/api.py\<close> are plain \<^verbatim>\<open>def\<close>s that
  the server runs in parallel, so a join is given a second time as the sequence of its
  transactions, which calls in flight interleave.
  Python's integers are \<open>int\<close>. Column names are prefixed by their table
  (\<open>r_id\<close> is \<^verbatim>\<open>room.id\<close>, \<open>m_room_id\<close> is \<^verbatim>\<open>room_member.room_id\<close>), since several
  tables have columns of the same name.
\<close>

datatype error =
    InvalidToken
  | NoResultFound
  | MultipleResultsFound
  | AttributeError
  | StatementError
  | ProgrammingError
  | ValueError
  | TypeError
  | PlainException

record user_row =
  u_id :: int
  u_name :: string
  u_token :: string
  u_leader_card_id :: int

record SafeUser =
  su_id :: int
  su_name :: string
  su_leader_card_id :: int

datatype LiveDifficulty = normal | hard

fun int_of_LiveDifficulty :: "LiveDifficulty \<Rightarrow> int" where
  "int_of_LiveDifficulty normal = 1"
| "int_of_LiveDifficulty hard = 2"

datatype JoinRoomResult = Ok | RoomFull | Disbanded | OtherError

fun int_of_JoinRoomResult :: "JoinRoomResult \<Rightarrow> int" where
  "int_of_JoinRoomResult Ok = 1"
| "int_of_JoinRoomResult RoomFull = 2"
| "int_of_JoinRoomResult Disbanded = 3"
| "int_of_JoinRoomResult OtherError = 4"

datatype WaitRoomStatus = Waiting | LiveStart | Dissolution

fun int_of_WaitRoomStatus :: "WaitRoomStatus \<Rightarrow> int" where
  "int_of_WaitRoomStatus Waiting = 1"
| "int_of_WaitRoomStatus LiveStart = 2"
| "int_of_WaitRoomStatus Dissolution = 3"

text \<open>\<^verbatim>\<open>RoomInfo.max_user_count\<close>, the capacity of a room.\<close>

definition max_user_count :: int where
  "max_user_count = 4"

record room_row =
  r_id :: int
  r_live_id :: int
  r_room_master :: int
  r_joined_user_count :: int
  r_status :: int

record room_member_row =
  m_room_id :: int
  m_user_id :: int
  m_difficulty :: int
  m_in_order :: int

text \<open>
  \<open>room_lastrowid\<close> is the key the next \<^verbatim>\<open>INSERT INTO room\<close> is given
  (\<^verbatim>\<open>result.lastrowid\<close>, the primary key the database generates).

  Modelled from the spec: the schema of the tables is not among the sources. The spec says
  of the reference behaviour that a repeated join of one player is not deduplicated, so
  \<^verbatim>\<open>room_member\<close> carries no uniqueness constraint here, and no foreign key: an
  \<^verbatim>\<open>INSERT INTO room_member\<close> always succeeds.
\<close>

record db =
  user_tbl :: "user_row list"
  room_tbl :: "room_row list"
  room_member_tbl :: "room_member_row list"
  room_lastrowid :: int

text \<open>
  Modelled from the spec: the schema of \<^verbatim>\<open>room_member\<close> is not among the sources, and
  \<^verbatim>\<open>create_room\<close> inserts the host's row without an \<^verbatim>\<open>in_order\<close>, so the column's
  default decides it. The spec gives the host's membership join order 1.
\<close>

definition in_order_default :: int where
  "in_order_default = 1"

subsection \<open>Results of a query\<close>

text \<open>\<^verbatim>\<open>Result.one()\<close>: exactly one row, or an exception.\<close>

fun one_row :: "'a list \<Rightarrow> error + 'a" where
  "one_row [] = Inl NoResultFound"
| "one_row [x] = Inr x"
| "one_row (x # y # zs) = Inl MultipleResultsFound"

text \<open>\<^verbatim>\<open>Result.one_or_none()\<close>.\<close>

fun one_or_none :: "'a list \<Rightarrow> error + 'a option" where
  "one_or_none [] = Inr None"
| "one_or_none [x] = Inr (Some x)"
| "one_or_none (x # y # zs) = Inl MultipleResultsFound"

text \<open>
  \<^verbatim>\<open>conn.execute(text(...), params)\<close> raises before it reaches the database when a
  bind parameter \<^verbatim>\<open>:name\<close> of the statement has no value in \<^verbatim>\<open>params\<close>.
\<close>

definition params_bound :: "string list \<Rightarrow> string list \<Rightarrow> bool" where
  "params_bound names keys = list_all (\<lambda>n. n \<in> set keys) names"

subsection \<open>Users\<close>

definition get_user_by_token :: "db \<Rightarrow> string \<Rightarrow> error + SafeUser option" where
  "get_user_by_token d token =
     (case [u \<leftarrow> user_tbl d. u_token u = token] of
        [] \<Rightarrow> Inr None
      | [row] \<Rightarrow> Inr (Some \<lparr>su_id = u_id row, su_name = u_name row,
                            su_leader_card_id = u_leader_card_id row\<rparr>)
      | _ \<Rightarrow> Inl MultipleResultsFound)"

subsection \<open>Rooms\<close>

definition create_room :: "db \<Rightarrow> string \<Rightarrow> int \<Rightarrow> LiveDifficulty \<Rightarrow> (error + int) \<times> db" where
  "create_room d token live_id difficulty =
     (case get_user_by_token d token of
        Inl e \<Rightarrow> (Inl e, d)
      | Inr None \<Rightarrow> (Inl InvalidToken, d)
      | Inr (Some user) \<Rightarrow>
          (let room_id = room_lastrowid d;
               d1 = d\<lparr>room_tbl := room_tbl d @
                        [\<lparr>r_id = room_id, r_live_id = live_id, r_room_master = su_id user,
                          r_joined_user_count = 1, r_status = 1\<rparr>],
                      room_lastrowid := room_id + 1\<rparr>;
               d2 = d1\<lparr>room_member_tbl := room_member_tbl d1 @
                        [\<lparr>m_room_id = room_id, m_user_id = su_id user,
                          m_difficulty = int_of_LiveDifficulty difficulty,
                          m_in_order = in_order_default\<rparr>]\<rparr>
           in (Inr room_id, d2)))"

text \<open>The loop of \<^verbatim>\<open>search_room\<close>: \<^verbatim>\<open>for res in row: room_list.append(res.id)\<close>.\<close>

fun append_ids :: "room_row list \<Rightarrow> int list \<Rightarrow> int list" where
  "append_ids [] room_list = room_list"
| "append_ids (res # row) room_list = append_ids row (room_list @ [r_id res])"

text \<open>
  \<^verbatim>\<open>result.all()\<close> never raises \<^verbatim>\<open>NoResultFound\<close>, so the \<^verbatim>\<open>except\<close> branch
  that returns \<^verbatim>\<open>None\<close> is never taken and the function returns the list.
\<close>

definition search_room :: "db \<Rightarrow> int \<Rightarrow> int list" where
  "search_room d live_id =
     append_ids [r \<leftarrow> room_tbl d. r_live_id r = live_id \<and>
                   1 \<le> r_joined_user_count r \<and> r_joined_user_count r \<le> 3] []"

definition get_room_user_count :: "db \<Rightarrow> int \<Rightarrow> error + int" where
  "get_room_user_count d room_id =
     one_row (map r_joined_user_count [r \<leftarrow> room_tbl d. r_id r = room_id])"

definition get_upto_member_room :: "db \<Rightarrow> int \<Rightarrow> error + JoinRoomResult" where
  "get_upto_member_room d room_id =
     (case one_row (map r_joined_user_count [r \<leftarrow> room_tbl d. r_id r = room_id]) of
        Inl e \<Rightarrow> Inl e
      | Inr result \<Rightarrow>
          Inr (if result > 4 then OtherError
               else if result = 4 then RoomFull
               else if result \<ge> 0 then Ok
               else if result < 0 then Disbanded
               else OtherError))"

definition upcount_joined_count :: "db \<Rightarrow> int \<Rightarrow> db" where
  "upcount_joined_count d room_id =
     d\<lparr>room_tbl := map (\<lambda>r. if r_id r = room_id
                              then r\<lparr>r_joined_user_count := r_joined_user_count r + 1\<rparr>
                              else r) (room_tbl d)\<rparr>"

text \<open>\<^verbatim>\<open>insert_room_member\<close> always returns 1; \<open>None\<close> stands for Python's \<^verbatim>\<open>None\<close>.\<close>

definition insert_room_member :: "db \<Rightarrow> int \<Rightarrow> int \<Rightarrow> int \<Rightarrow> int option \<times> db" where
  "insert_room_member d room_id user_id user_count =
     (let d1 = d\<lparr>room_member_tbl := room_member_tbl d @
                   [\<lparr>m_room_id = room_id, m_user_id = user_id, m_difficulty = 1,
                     m_in_order = user_count\<rparr>]\<rparr>
      in (Some 1, upcount_joined_count d1 room_id))"

text \<open>
  \<^verbatim>\<open>join_room\<close> does not look at \<^verbatim>\<open>user\<close> before \<^verbatim>\<open>user.id\<close>: with no user for the
  token that attribute access raises \<^verbatim>\<open>AttributeError\<close>, after the two reads.
\<close>

definition join_room :: "db \<Rightarrow> string \<Rightarrow> int \<Rightarrow> (error + JoinRoomResult) \<times> db" where
  "join_room d token room_id =
     (case get_user_by_token d token of
        Inl e \<Rightarrow> (Inl e, d)
      | Inr user \<Rightarrow>
          (case get_upto_member_room d room_id of
             Inl e \<Rightarrow> (Inl e, d)
           | Inr judge_join \<Rightarrow>
               if judge_join = Ok then
                 (case get_room_user_count d room_id of
                    Inl e \<Rightarrow> (Inl e, d)
                  | Inr user_count \<Rightarrow>
                      (case user of
                         None \<Rightarrow> (Inl AttributeError, d)
                       | Some u \<Rightarrow>
                           (case insert_room_member d room_id (su_id u) (user_count + 1) of
                              (None, d') \<Rightarrow> (Inr OtherError, d')
                            | (Some _, d') \<Rightarrow> (Inr judge_join, d'))))
               else (Inr judge_join, d)))"

subsection \<open>A join, transaction by transaction\<close>

text \<open>
  The transactions of one \<^verbatim>\<open>join_room\<close> call, each on a connection of its own, and
  where the call stands between them:
  \<^item> \<open>Called\<close>: \<^verbatim>\<open>join_room(token, room_id)\<close> is entered;
  \<^item> \<open>GotUser\<close>: \<^verbatim>\<open>_get_user_by_token\<close> has read the user;
  \<^item> \<open>Judged\<close>: \<^verbatim>\<open>get_upto_member_room\<close> has read the count and answered Ok
    (any other answer is returned at once);
  \<^item> \<open>Inserting\<close>: \<^verbatim>\<open>get_room_user_count\<close> has read the count again, and
    \<^verbatim>\<open>insert_room_member\<close> has executed its \<^verbatim>\<open>INSERT\<close> of the row, which stays
    uncommitted while its \<^verbatim>\<open>with\<close> block is open;
  \<^item> \<open>Upcounted\<close>: \<^verbatim>\<open>upcount_joined_count\<close>, called inside that block, has
    committed its \<^verbatim>\<open>UPDATE\<close>;
  \<^item> \<open>Returned\<close>: the block of \<^verbatim>\<open>insert_room_member\<close> has ended, which commits the
    row, and the call has returned or raised.
\<close>

datatype join_call =
    Called string int
  | GotUser "SafeUser option" int
  | Judged "SafeUser option" int JoinRoomResult
  | Inserting room_member_row JoinRoomResult
  | Upcounted room_member_row JoinRoomResult
  | Returned "error + JoinRoomResult"

fun join_step :: "join_call \<Rightarrow> db \<Rightarrow> join_call \<times> db" where
  "join_step (Called token room_id) d =
     (case get_user_by_token d token of
        Inl e \<Rightarrow> (Returned (Inl e), d)
      | Inr user \<Rightarrow> (GotUser user room_id, d))"
| "join_step (GotUser user room_id) d =
     (case get_upto_member_room d room_id of
        Inl e \<Rightarrow> (Returned (Inl e), d)
      | Inr judge_join \<Rightarrow>
          if judge_join = Ok then (Judged user room_id judge_join, d)
          else (Returned (Inr judge_join), d))"
| "join_step (Judged user room_id judge_join) d =
     (case get_room_user_count d room_id of
        Inl e \<Rightarrow> (Returned (Inl e), d)
      | Inr user_count \<Rightarrow>
          (case user of
             None \<Rightarrow> (Returned (Inl AttributeError), d)
           | Some u \<Rightarrow>
               (Inserting \<lparr>m_room_id = room_id, m_user_id = su_id u, m_difficulty = 1,
                           m_in_order = user_count + 1\<rparr> judge_join, d)))"
| "join_step (Inserting row judge_join) d =
     (Upcounted row judge_join, upcount_joined_count d (m_room_id row))"
| "join_step (Upcounted row judge_join) d =
     (Returned (Inr judge_join), d\<lparr>room_member_tbl := room_member_tbl d @ [row]\<rparr>)"
| "join_step (Returned res) d = (Returned res, d)"

text \<open>
  Calls in flight and the database. \<open>sched_step i\<close> lets call \<open>i\<close> run its next
  transaction; a schedule is the order in which the server lets them run.
\<close>

definition sched_step :: "nat \<Rightarrow> join_call list \<times> db \<Rightarrow> join_call list \<times> db" where
  "sched_step i c =
     (case c of (calls, d) \<Rightarrow>
        if i < length calls
        then (case join_step (calls ! i) d of (call', d') \<Rightarrow> (calls[i := call'], d'))
        else (calls, d))"

fun run_schedule :: "nat list \<Rightarrow> join_call list \<times> db \<Rightarrow> join_call list \<times> db" where
  "run_schedule [] c = c"
| "run_schedule (i # sched) c = run_schedule sched (sched_step i c)"

text \<open>
  \<^verbatim>\<open>downcount_joined_count\<close> passes \<^verbatim>\<open>{"id": room_id}\<close> to a statement whose bind
  parameter is \<^verbatim>\<open>:room_id\<close>, and the statement itself is not SQL (its backquotes do
  not pair up): it raises either way and writes nothing.
\<close>

definition downcount_joined_count :: "db \<Rightarrow> int \<Rightarrow> (error + unit) \<times> db" where
  "downcount_joined_count d room_id =
     (if \<not> params_bound [''room_id''] [''id''] then (Inl StatementError, d)
      else (Inl ProgrammingError, d))"

text \<open>The \<^verbatim>\<open>UPDATE\<close> of \<^verbatim>\<open>update_room_status\<close> has no \<^verbatim>\<open>WHERE\<close>.\<close>

definition update_room_status :: "db \<Rightarrow> int \<Rightarrow> WaitRoomStatus \<Rightarrow> db" where
  "update_room_status d room_id status =
     d\<lparr>room_tbl := map (\<lambda>r. r\<lparr>r_status := int_of_WaitRoomStatus status\<rparr>) (room_tbl d)\<rparr>"

subsection \<open>The waiting room\<close>

record RoomMemberInfo =
  rmi_room_id :: int
  rmi_user_id :: int
  rmi_difficulty :: LiveDifficulty
  rmi_in_order :: int

text \<open>\<^verbatim>\<open>LiveDifficulty(v)\<close> raises \<^verbatim>\<open>ValueError\<close> for a value that is no member.\<close>

definition LiveDifficulty_of_int :: "int \<Rightarrow> error + LiveDifficulty" where
  "LiveDifficulty_of_int v =
     (if v = 1 then Inr normal else if v = 2 then Inr hard else Inl ValueError)"

fun append_user_info ::
  "room_member_row list \<Rightarrow> RoomMemberInfo list \<Rightarrow> error + RoomMemberInfo list" where
  "append_user_info [] user_info = Inr user_info"
| "append_user_info (res # result) user_info =
     (case LiveDifficulty_of_int (m_difficulty res) of
        Inl e \<Rightarrow> Inl e
      | Inr dif \<Rightarrow>
          append_user_info result
            (user_info @ [\<lparr>rmi_room_id = m_room_id res, rmi_user_id = m_user_id res,
                           rmi_difficulty = dif, rmi_in_order = m_in_order res\<rparr>]))"

definition get_room_user_info :: "db \<Rightarrow> int \<Rightarrow> error + RoomMemberInfo list" where
  "get_room_user_info d room_id =
     append_user_info [m \<leftarrow> room_member_tbl d. m_room_id m = room_id] []"

text \<open>
  \<^verbatim>\<open>get_room_status\<close> and \<^verbatim>\<open>get_room_host\<close> pass \<^verbatim>\<open>{"id": room_id}\<close> to statements
  whose bind parameter is \<^verbatim>\<open>:room_id\<close>. Past that, \<^verbatim>\<open>get_room_status\<close> hands the
  whole row, not its column, to \<^verbatim>\<open>WaitRoomStatus(...)\<close>, which has no such member.
\<close>

definition get_room_status :: "db \<Rightarrow> int \<Rightarrow> error + WaitRoomStatus option" where
  "get_room_status d room_id =
     (if \<not> params_bound [''room_id''] [''id''] then Inl StatementError
      else (case one_row (map r_status [r \<leftarrow> room_tbl d. r_id r = room_id]) of
              Inl e \<Rightarrow> Inl e
            | Inr result \<Rightarrow> Inl ValueError))"

definition get_room_host :: "db \<Rightarrow> int \<Rightarrow> error + int" where
  "get_room_host d room_id =
     (if \<not> params_bound [''room_id''] [''id''] then Inl StatementError
      else (case one_or_none (map r_room_master [r \<leftarrow> room_tbl d. r_id r = room_id]) of
              Inl e \<Rightarrow> Inl e
            | Inr None \<Rightarrow> Inl PlainException
            | Inr (Some result) \<Rightarrow> Inr result))"

record UserList =
  ul_id :: int
  ul_name :: string
  ul_leader_card_id :: int
  ul_difficulty :: LiveDifficulty
  ul_is_host :: bool

text \<open>
  \<^verbatim>\<open>room_wait\<close> takes its \<^verbatim>\<open>user_info\<close> from \<^verbatim>\<open>get_upto_member_room\<close>, a
  \<^verbatim>\<open>JoinRoomResult\<close>, and iterates over it: an \<^verbatim>\<open>IntEnum\<close> member is not iterable.
\<close>

definition room_wait :: "db \<Rightarrow> int \<Rightarrow> error + (WaitRoomStatus \<times> UserList list)" where
  "room_wait d room_id =
     (case get_room_status d room_id of
        Inl e \<Rightarrow> Inl e
      | Inr None \<Rightarrow> Inl PlainException
      | Inr (Some status) \<Rightarrow>
          (case get_room_host d room_id of
             Inl e \<Rightarrow> Inl e
           | Inr host \<Rightarrow>
               (case get_upto_member_room d room_id of
                  Inl e \<Rightarrow> Inl e
                | Inr user_info \<Rightarrow> Inl TypeError)))"

subsection \<open>Operations as data\<close>

text \<open>
  Every function of the module that touches the room tables, with its arguments, and the
  database a call leaves behind when it runs from its first transaction to its last with
  no other call in between.
\<close>

datatype operation =
    CreateRoom string int LiveDifficulty
  | SearchRoom int
  | JoinRoom string int
  | RoomWait int
  | UpdateRoomStatus int WaitRoomStatus
  | DowncountJoinedCount int

fun run_op_seq :: "operation \<Rightarrow> db \<Rightarrow> db" where
  "run_op_seq (CreateRoom token live_id difficulty) d = snd (create_room d token live_id difficulty)"
| "run_op_seq (SearchRoom live_id) d = d"
| "run_op_seq (JoinRoom token room_id) d = snd (join_room d token room_id)"
| "run_op_seq (RoomWait room_id) d = d"
| "run_op_seq (UpdateRoomStatus room_id status) d = update_room_status d room_id status"
| "run_op_seq (DowncountJoinedCount room_id) d = snd (downcount_joined_count d room_id)"

section \<open>Invariants of the room tables\<close>

text \<open>The membership rows of a room, in insertion order.\<close>

definition members_of :: "db \<Rightarrow> int \<Rightarrow> room_member_row list" where
  "members_of d room_id = [m \<leftarrow> room_member_tbl d. m_room_id m = room_id]"

text \<open>
  The keys of the room table: \<^verbatim>\<open>room.id\<close> is the generated primary key, so it is
  unique and below the next key, and no membership row names a room that is yet to be
  created.
\<close>

definition keys_ok :: "db \<Rightarrow> bool" where
  "keys_ok d \<longleftrightarrow>
     distinct (map r_id (room_tbl d)) \<and>
     (\<forall>r \<in> set (room_tbl d). r_id r < room_lastrowid d) \<and>
     (\<forall>m \<in> set (room_member_tbl d). m_room_id m < room_lastrowid d)"

definition capacity_inv :: "db \<Rightarrow> bool" where
  "capacity_inv d \<longleftrightarrow>
     (\<forall>r \<in> set (room_tbl d).
        0 \<le> r_joined_user_count r \<and> r_joined_user_count r \<le> max_user_count \<and>
        r_joined_user_count r = int (length (members_of d (r_id r))))"

definition join_order_inv :: "db \<Rightarrow> bool" where
  "join_order_inv d \<longleftrightarrow>
     (\<forall>r \<in> set (room_tbl d).
        map m_in_order (members_of d (r_id r)) = [1..r_joined_user_count r])"

text \<open>
  The databases that calls run one after the other produce, from one with no rooms and
  no memberships (any users, any first key). Joins that overlap produce others: see
  \<open>db_raced\<close> below.
\<close>

inductive reachable_seq :: "db \<Rightarrow> bool" where
  start: "room_tbl d = [] \<Longrightarrow> room_member_tbl d = [] \<Longrightarrow> reachable_seq d"
| step: "reachable_seq d \<Longrightarrow> reachable_seq (run_op_seq op d)"

subsection \<open>Example databases\<close>

definition users_ab :: "user_row list" where
  "users_ab =
     [\<lparr>u_id = 1, u_name = ''Alice'', u_token = ''token-a'', u_leader_card_id = 10\<rparr>,
      \<lparr>u_id = 2, u_name = ''Bob'', u_token = ''token-b'', u_leader_card_id = 20\<rparr>]"

definition db_start :: db where
  "db_start = \<lparr>user_tbl = users_ab, room_tbl = [], room_member_tbl = [],
                room_lastrowid = 1\<rparr>"

text \<open>After \<^verbatim>\<open>create_room("token-a", 5, LiveDifficulty.hard)\<close> on \<open>db_start\<close>.\<close>

definition db_room1 :: db where
  "db_room1 =
     \<lparr>user_tbl = users_ab,
      room_tbl = [\<lparr>r_id = 1, r_live_id = 5, r_room_master = 1,
                   r_joined_user_count = 1, r_status = 1\<rparr>],
      room_member_tbl = [\<lparr>m_room_id = 1, m_user_id = 1, m_difficulty = 2, m_in_order = 1\<rparr>],
      room_lastrowid = 2\<rparr>"

text \<open>The same room after \<^verbatim>\<open>update_room_status(1, WaitRoomStatus.Dissolution)\<close>.\<close>

definition db_dissolved :: db where
  "db_dissolved =
     \<lparr>user_tbl = users_ab,
      room_tbl = [\<lparr>r_id = 1, r_live_id = 5, r_room_master = 1,
                   r_joined_user_count = 1, r_status = 3\<rparr>],
      room_member_tbl = [\<lparr>m_room_id = 1, m_user_id = 1, m_difficulty = 2, m_in_order = 1\<rparr>],
      room_lastrowid = 2\<rparr>"

text \<open>Room 1 with four members.\<close>

definition db_full :: db where
  "db_full =
     \<lparr>user_tbl = users_ab,
      room_tbl = [\<lparr>r_id = 1, r_live_id = 5, r_room_master = 1,
                   r_joined_user_count = 4, r_status = 1\<rparr>],
      room_member_tbl =
        [\<lparr>m_room_id = 1, m_user_id = 1, m_difficulty = 2, m_in_order = 1\<rparr>,
         \<lparr>m_room_id = 1, m_user_id = 2, m_difficulty = 1, m_in_order = 2\<rparr>,
         \<lparr>m_room_id = 1, m_user_id = 3, m_difficulty = 1, m_in_order = 3\<rparr>,
         \<lparr>m_room_id = 1, m_user_id = 4, m_difficulty = 1, m_in_order = 4\<rparr>],
      room_lastrowid = 2\<rparr>"

text \<open>Two waiting rooms, one of Alice and one of Bob.\<close>

definition db_two_rooms :: db where
  "db_two_rooms =
     \<lparr>user_tbl = users_ab,
      room_tbl = [\<lparr>r_id = 1, r_live_id = 5, r_room_master = 1,
                   r_joined_user_count = 1, r_status = 1\<rparr>,
                  \<lparr>r_id = 2, r_live_id = 7, r_room_master = 2,
                   r_joined_user_count = 1, r_status = 1\<rparr>],
      room_member_tbl =
        [\<lparr>m_room_id = 1, m_user_id = 1, m_difficulty = 2, m_in_order = 1\<rparr>,
         \<lparr>m_room_id = 2, m_user_id = 2, m_difficulty = 1, m_in_order = 1\<rparr>],
      room_lastrowid = 3\<rparr>"

text \<open>
  Five players; room 1 after Alice created it and Bob and Carol joined it, one call after
  the other; then Dave's and Eve's joins of room 1, in flight together, each transaction
  of the one followed by the same transaction of the other.
\<close>

definition users_abcde :: "user_row list" where
  "users_abcde =
     [\<lparr>u_id = 1, u_name = ''Alice'', u_token = ''token-a'', u_leader_card_id = 10\<rparr>,
      \<lparr>u_id = 2, u_name = ''Bob'', u_token = ''token-b'', u_leader_card_id = 20\<rparr>,
      \<lparr>u_id = 3, u_name = ''Carol'', u_token = ''token-c'', u_leader_card_id = 30\<rparr>,
      \<lparr>u_id = 4, u_name = ''Dave'', u_token = ''token-d'', u_leader_card_id = 40\<rparr>,
      \<lparr>u_id = 5, u_name = ''Eve'', u_token = ''token-e'', u_leader_card_id = 50\<rparr>]"

definition db_players :: db where
  "db_players = \<lparr>user_tbl = users_abcde, room_tbl = [], room_member_tbl = [],
                  room_lastrowid = 1\<rparr>"

definition db_three :: db where
  "db_three =
     run_op_seq (JoinRoom ''token-c'' 1)
       (run_op_seq (JoinRoom ''token-b'' 1)
          (run_op_seq (CreateRoom ''token-a'' 5 hard) db_players))"

definition race_calls :: "join_call list" where
  "race_calls = [Called ''token-d'' 1, Called ''token-e'' 1]"

definition race_schedule :: "nat list" where
  "race_schedule = [0, 1, 0, 1, 0, 1, 0, 1, 0, 1]"

definition db_raced :: db where
  "db_raced = snd (run_schedule race_schedule (race_calls, db_three))"

section \<open>What a call does to the database\<close>

lemma one_row_Inr: "one_row xs = Inr x \<longleftrightarrow> xs = [x]"
  by (cases xs rule: one_row.cases) auto

lemma create_room_cases:
  "create_room d token live_id difficulty = (res, d') \<Longrightarrow>
     d' = d \<or>
     (\<exists>user. get_user_by_token d token = Inr (Some user) \<and> res = Inr (room_lastrowid d) \<and>
        d' = d\<lparr>room_tbl := room_tbl d @
                  [\<lparr>r_id = room_lastrowid d, r_live_id = live_id, r_room_master = su_id user,
                    r_joined_user_count = 1, r_status = 1\<rparr>],
                room_lastrowid := room_lastrowid d + 1,
                room_member_tbl := room_member_tbl d @
                  [\<lparr>m_room_id = room_lastrowid d, m_user_id = su_id user,
                    m_difficulty = int_of_LiveDifficulty difficulty,
                    m_in_order = in_order_default\<rparr>]\<rparr>)"
  by (auto simp: create_room_def Let_def split: sum.splits option.splits)

lemma join_room_cases:
  "join_room d token room_id = (res, d') \<Longrightarrow>
     d' = d \<or>
     (\<exists>u r. get_user_by_token d token = Inr (Some u) \<and>
        [x \<leftarrow> room_tbl d. r_id x = room_id] = [r] \<and>
        0 \<le> r_joined_user_count r \<and> r_joined_user_count r < 4 \<and> res = Inr Ok \<and>
        d' = d\<lparr>room_member_tbl := room_member_tbl d @
                  [\<lparr>m_room_id = room_id, m_user_id = su_id u, m_difficulty = 1,
                    m_in_order = r_joined_user_count r + 1\<rparr>],
                room_tbl := map (\<lambda>x. if r_id x = room_id
                              then x\<lparr>r_joined_user_count := r_joined_user_count x + 1\<rparr>
                              else x) (room_tbl d)\<rparr>)"
  apply (auto simp: join_room_def get_upto_member_room_def get_room_user_count_def
      insert_room_member_def upcount_joined_count_def Let_def one_row_Inr map_eq_Cons_conv
      split: sum.splits option.splits if_splits)
  done


lemma keys_ok_create:
  assumes "keys_ok d"
  shows "keys_ok (d\<lparr>room_tbl := room_tbl d @
                  [\<lparr>r_id = room_lastrowid d, r_live_id = l, r_room_master = h,
                    r_joined_user_count = 1, r_status = 1\<rparr>],
                room_lastrowid := room_lastrowid d + 1,
                room_member_tbl := room_member_tbl d @
                  [\<lparr>m_room_id = room_lastrowid d, m_user_id = h,
                    m_difficulty = df, m_in_order = io\<rparr>]\<rparr>)"
  using assms by (fastforce simp: keys_ok_def)

lemma members_of_fresh:
  "keys_ok d \<Longrightarrow> members_of d (room_lastrowid d) = []"
  by (auto simp: keys_ok_def members_of_def filter_empty_conv)

lemma capacity_inv_create:
  assumes "keys_ok d" and "capacity_inv d"
  shows "capacity_inv (d\<lparr>room_tbl := room_tbl d @
                  [\<lparr>r_id = room_lastrowid d, r_live_id = l, r_room_master = h,
                    r_joined_user_count = 1, r_status = 1\<rparr>],
                room_lastrowid := room_lastrowid d + 1,
                room_member_tbl := room_member_tbl d @
                  [\<lparr>m_room_id = room_lastrowid d, m_user_id = h,
                    m_difficulty = df, m_in_order = io\<rparr>]\<rparr>)"
  using assms members_of_fresh[OF assms(1)]
  by (auto simp: capacity_inv_def members_of_def max_user_count_def keys_ok_def)

lemma r_id_upcount:
  "r_id \<circ> (\<lambda>x. if r_id x = room_id
                   then x\<lparr>r_joined_user_count := r_joined_user_count x + 1\<rparr>
                   else x) = r_id"
  by (rule ext) simp

lemma keys_ok_join:
  assumes "keys_ok d" and "[x \<leftarrow> room_tbl d. r_id x = room_id] = [r]"
  shows "keys_ok (d\<lparr>room_member_tbl := room_member_tbl d @
                  [\<lparr>m_room_id = room_id, m_user_id = uid, m_difficulty = df,
                    m_in_order = io\<rparr>],
                room_tbl := map (\<lambda>x. if r_id x = room_id
                              then x\<lparr>r_joined_user_count := r_joined_user_count x + 1\<rparr>
                              else x) (room_tbl d)\<rparr>)"
proof -
  have "r \<in> set [x \<leftarrow> room_tbl d. r_id x = room_id]" using assms(2) by simp
  then have "r \<in> set (room_tbl d)" and "r_id r = room_id" by auto
  then have "room_id < room_lastrowid d" using assms(1) by (auto simp: keys_ok_def)
  then show ?thesis using assms(1)
    by (auto simp: keys_ok_def r_id_upcount)
qed

lemma filter_single_mem:
  assumes "[x \<leftarrow> xs. P x] = [r]" and "x \<in> set xs" and "P x"
  shows "x = r"
proof -
  have "x \<in> set [x \<leftarrow> xs. P x]" using assms(2,3) by simp
  then show ?thesis unfolding assms(1) by simp
qed

lemma capacity_inv_join:
  assumes "capacity_inv d" and "[x \<leftarrow> room_tbl d. r_id x = room_id] = [r]"
    and "r_joined_user_count r < 4"
  shows "capacity_inv (d\<lparr>room_member_tbl := room_member_tbl d @
                  [\<lparr>m_room_id = room_id, m_user_id = uid, m_difficulty = df,
                    m_in_order = io\<rparr>],
                room_tbl := map (\<lambda>x. if r_id x = room_id
                              then x\<lparr>r_joined_user_count := r_joined_user_count x + 1\<rparr>
                              else x) (room_tbl d)\<rparr>)"
  unfolding capacity_inv_def
proof
  fix r'
  let ?d' = "d\<lparr>room_member_tbl := room_member_tbl d @
                  [\<lparr>m_room_id = room_id, m_user_id = uid, m_difficulty = df,
                    m_in_order = io\<rparr>],
                room_tbl := map (\<lambda>x. if r_id x = room_id
                              then x\<lparr>r_joined_user_count := r_joined_user_count x + 1\<rparr>
                              else x) (room_tbl d)\<rparr>"
  assume "r' \<in> set (room_tbl ?d')"
  then obtain x where x: "x \<in> set (room_tbl d)"
    and r': "r' = (if r_id x = room_id
                    then x\<lparr>r_joined_user_count := r_joined_user_count x + 1\<rparr> else x)"
    by auto
  from assms(1) x have inv: "0 \<le> r_joined_user_count x"
    "r_joined_user_count x \<le> max_user_count"
    "r_joined_user_count x = int (length (members_of d (r_id x)))"
    by (auto simp: capacity_inv_def)
  show "0 \<le> r_joined_user_count r' \<and> r_joined_user_count r' \<le> max_user_count \<and>
        r_joined_user_count r' = int (length (members_of ?d' (r_id r')))"
  proof (cases "r_id x = room_id")
    case True
    then have "x = r" using filter_single_mem[OF assms(2) x] by simp
    then show ?thesis using True r' inv assms(3)
      by (simp add: members_of_def max_user_count_def)
  next
    case False
    then show ?thesis using r' inv by (simp add: members_of_def)
  qed
qed

lemma keys_ok_status:
  "keys_ok d \<Longrightarrow> keys_ok (update_room_status d room_id status)"
  by (auto simp: keys_ok_def update_room_status_def comp_def)

lemma capacity_inv_status:
  "capacity_inv d \<Longrightarrow> capacity_inv (update_room_status d room_id status)"
  by (auto simp: capacity_inv_def update_room_status_def members_of_def)

lemma downcount_unchanged: "snd (downcount_joined_count d room_id) = d"
  by (simp add: downcount_joined_count_def)

lemma keys_ok_run_op_seq:
  assumes "keys_ok d"
  shows "keys_ok (run_op_seq op d)"
proof (cases op)
  case (CreateRoom token live_id difficulty)
  obtain res d' where c: "create_room d token live_id difficulty = (res, d')"
    by (cases "create_room d token live_id difficulty")
  from create_room_cases[OF c] assms show ?thesis
    using CreateRoom c keys_ok_create[OF assms]
    by auto
next
  case (JoinRoom token room_id)
  obtain res d' where j: "join_room d token room_id = (res, d')"
    by (cases "join_room d token room_id")
  from join_room_cases[OF j] assms show ?thesis
    using JoinRoom j keys_ok_join[OF assms]
    by auto
qed (use assms in \<open>simp_all add: keys_ok_status downcount_unchanged\<close>)

lemma capacity_inv_run_op_seq:
  assumes "keys_ok d" and "capacity_inv d"
  shows "capacity_inv (run_op_seq op d)"
proof (cases op)
  case (CreateRoom token live_id difficulty)
  obtain res d' where c: "create_room d token live_id difficulty = (res, d')"
    by (cases "create_room d token live_id difficulty")
  from create_room_cases[OF c] assms show ?thesis
    using CreateRoom c capacity_inv_create[OF assms]
    by auto
next
  case (JoinRoom token room_id)
  obtain res d' where j: "join_room d token room_id = (res, d')"
    by (cases "join_room d token room_id")
  from join_room_cases[OF j] assms show ?thesis
    using JoinRoom j capacity_inv_join[OF assms(2)]
    by auto
qed (use assms in \<open>simp_all add: capacity_inv_status downcount_unchanged\<close>)

subsection \<open>Joins one at a time and joins in flight together\<close>

text \<open>
  A join that runs its five transactions with nothing in between is \<open>join_room\<close>.
\<close>

lemma join_room_alone:
  "run_schedule [0, 0, 0, 0, 0] ([Called token room_id], d) =
     ([Returned (fst (join_room d token room_id))], snd (join_room d token room_id))"
  by (simp add: sched_step_def join_room_def insert_room_member_def upcount_joined_count_def
      get_upto_member_room_def get_room_user_count_def
      split: sum.split option.split)

lemma reachable_seq_db_three: "reachable_seq db_three"
  unfolding db_three_def
  by (intro reachable_seq.step reachable_seq.start) (simp_all add: db_players_def)

lemma db_three_eq:
  "db_three =
     \<lparr>user_tbl = users_abcde,
      room_tbl = [\<lparr>r_id = 1, r_live_id = 5, r_room_master = 1,
                   r_joined_user_count = 3, r_status = 1\<rparr>],
      room_member_tbl =
        [\<lparr>m_room_id = 1, m_user_id = 1, m_difficulty = 2, m_in_order = 1\<rparr>,
         \<lparr>m_room_id = 1, m_user_id = 2, m_difficulty = 1, m_in_order = 2\<rparr>,
         \<lparr>m_room_id = 1, m_user_id = 3, m_difficulty = 1, m_in_order = 3\<rparr>],
      room_lastrowid = 2\<rparr>"
  by (simp add: db_three_def db_players_def users_abcde_def create_room_def join_room_def
      get_user_by_token_def get_upto_member_room_def get_room_user_count_def
      insert_room_member_def upcount_joined_count_def in_order_default_def)

lemma race_result:
  "run_schedule race_schedule (race_calls, db_three) =
     ([Returned (Inr Ok), Returned (Inr Ok)],
      \<lparr>user_tbl = users_abcde,
       room_tbl = [\<lparr>r_id = 1, r_live_id = 5, r_room_master = 1,
                    r_joined_user_count = 5, r_status = 1\<rparr>],
       room_member_tbl =
         [\<lparr>m_room_id = 1, m_user_id = 1, m_difficulty = 2, m_in_order = 1\<rparr>,
          \<lparr>m_room_id = 1, m_user_id = 2, m_difficulty = 1, m_in_order = 2\<rparr>,
          \<lparr>m_room_id = 1, m_user_id = 3, m_difficulty = 1, m_in_order = 3\<rparr>,
          \<lparr>m_room_id = 1, m_user_id = 4, m_difficulty = 1, m_in_order = 4\<rparr>,
          \<lparr>m_room_id = 1, m_user_id = 5, m_difficulty = 1, m_in_order = 4\<rparr>],
       room_lastrowid = 2\<rparr>)"
  unfolding db_three_eq
  by (simp add: race_schedule_def race_calls_def sched_step_def users_abcde_def
      get_user_by_token_def get_upto_member_room_def get_room_user_count_def
      upcount_joined_count_def)


lemma one_join_midway:
  "run_schedule [0, 0, 0, 0] ([Called ''token-d'' 1], db_three) =
     ([Upcounted \<lparr>m_room_id = 1, m_user_id = 4, m_difficulty = 1, m_in_order = 4\<rparr> Ok],
      \<lparr>user_tbl = users_abcde,
       room_tbl = [\<lparr>r_id = 1, r_live_id = 5, r_room_master = 1,
                    r_joined_user_count = 4, r_status = 1\<rparr>],
       room_member_tbl =
         [\<lparr>m_room_id = 1, m_user_id = 1, m_difficulty = 2, m_in_order = 1\<rparr>,
          \<lparr>m_room_id = 1, m_user_id = 2, m_difficulty = 1, m_in_order = 2\<rparr>,
          \<lparr>m_room_id = 1, m_user_id = 3, m_difficulty = 1, m_in_order = 3\<rparr>],
       room_lastrowid = 2\<rparr>)"
  unfolding db_three_eq
  by (simp add: sched_step_def users_abcde_def
      get_user_by_token_def get_upto_member_room_def get_room_user_count_def
      upcount_joined_count_def)

section \<open>Capacity\<close>

text \<open>
  C1. As stated (the invariant holds at all times, the count and the membership changing
  in one atomic unit) the claim fails: \<^verbatim>\<open>join_room\<close> checks the count, reads it
  again, inserts the row and updates the count in transactions of their own. Room 1 of
  \<open>db_three\<close> has three members. When Dave's and Eve's joins are in flight together,
  both read the count 3, both are answered Ok, and room 1 ends with
  \<^verbatim>\<open>joined_user_count\<close> 5 and five membership rows, above the capacity 4. And within
  Dave's join alone, after the \<^verbatim>\<open>UPDATE\<close> has committed and before the row has,
  the count is 4 and the room has three membership rows.
\<close>

theorem overlapping_joins_exceed_capacity:
  "reachable_seq db_three \<and> capacity_inv db_three \<and>
   fst (run_schedule race_schedule (race_calls, db_three)) =
     [Returned (Inr Ok), Returned (Inr Ok)] \<and>
   map r_joined_user_count (room_tbl db_raced) = [5] \<and>
   length (members_of db_raced 1) = 5 \<and>
   \<not> capacity_inv db_raced \<and>
   map r_joined_user_count
     (room_tbl (snd (run_schedule [0, 0, 0, 0] ([Called ''token-d'' 1], db_three)))) = [4] \<and>
   length (members_of (snd (run_schedule [0, 0, 0, 0] ([Called ''token-d'' 1], db_three))) 1)
     = 3"
  unfolding db_raced_def race_result one_join_midway
  using reachable_seq_db_three
  by (simp add: db_three_eq capacity_inv_def members_of_def max_user_count_def)

text \<open>
  C1, amended. Every operation (\<^verbatim>\<open>create_room\<close>, \<^verbatim>\<open>join_room\<close>, \<^verbatim>\<open>search_room\<close>,
  \<^verbatim>\<open>room_wait\<close>, \<^verbatim>\<open>update_room_status\<close>, \<^verbatim>\<open>downcount_joined_count\<close>), run from its
  first transaction to its last with no other call in between, preserves the invariant:
  every room has \<open>0 \<le> joined_user_count \<le> 4\<close>, and its \<^verbatim>\<open>joined_user_count\<close> is
  the number of \<^verbatim>\<open>room_member\<close> rows of that room.
\<close>

theorem capacity_invariant_preserved:
  assumes "keys_ok d" and "capacity_inv d"
  shows "keys_ok (run_op_seq op d) \<and> capacity_inv (run_op_seq op d)"
  using assms by (simp add: keys_ok_run_op_seq capacity_inv_run_op_seq)

theorem capacity_invariant_preserved_witness:
  "keys_ok db_room1 \<and> capacity_inv db_room1 \<and>
   keys_ok (run_op_seq (JoinRoom ''token-b'' 1) db_room1) \<and>
   capacity_inv (run_op_seq (JoinRoom ''token-b'' 1) db_room1)"
proof -
  have k: "keys_ok db_room1"
    by (simp add: keys_ok_def db_room1_def)
  have c: "capacity_inv db_room1"
    by (simp add: capacity_inv_def db_room1_def members_of_def max_user_count_def)
  show ?thesis
    using k c capacity_invariant_preserved [OF k c, of "JoinRoom ''token-b'' 1"] by simp
qed

section \<open>Creating a room\<close>

text \<open>
  C7. For a token that resolves to a player, \<^verbatim>\<open>create_room\<close> returns the new key and
  adds exactly one room row (status Waiting, \<^verbatim>\<open>joined_user_count\<close> 1, \<^verbatim>\<open>room_master\<close>
  that player) and exactly one membership row (that player's, in the new room), both or
  neither; for a token that resolves to no player it raises \<^verbatim>\<open>InvalidToken\<close> and the
  database is unchanged. In every case the call leaves either the database as it was or
  the database with both rows added.
\<close>

theorem create_room_atomic:
  "(get_user_by_token d token = Inr (Some user) \<longrightarrow>
      create_room d token live_id difficulty =
        (Inr (room_lastrowid d),
         d\<lparr>room_tbl := room_tbl d @
              [\<lparr>r_id = room_lastrowid d, r_live_id = live_id, r_room_master = su_id user,
                r_joined_user_count = 1, r_status = int_of_WaitRoomStatus Waiting\<rparr>],
           room_member_tbl := room_member_tbl d @
              [\<lparr>m_room_id = room_lastrowid d, m_user_id = su_id user,
                m_difficulty = int_of_LiveDifficulty difficulty,
                m_in_order = in_order_default\<rparr>],
           room_lastrowid := room_lastrowid d + 1\<rparr>)) \<and>
   (get_user_by_token d token = Inr None \<longrightarrow>
      create_room d token live_id difficulty = (Inl InvalidToken, d)) \<and>
   (snd (create_room d token live_id difficulty) = d \<or>
    length (room_tbl (snd (create_room d token live_id difficulty))) =
      length (room_tbl d) + 1 \<and>
    length (room_member_tbl (snd (create_room d token live_id difficulty))) =
      length (room_member_tbl d) + 1)"
  by (simp add: create_room_def Let_def split: sum.split option.split)

theorem create_room_atomic_witness:
  "get_user_by_token db_start ''token-a'' =
     Inr (Some \<lparr>su_id = 1, su_name = ''Alice'', su_leader_card_id = 10\<rparr>) \<and>
   create_room db_start ''token-a'' 5 hard = (Inr 1, db_room1) \<and>
   get_user_by_token db_start ''no-such-token'' = Inr None \<and>
   create_room db_start ''no-such-token'' 5 hard = (Inl InvalidToken, db_start)"
proof -
  have a: "get_user_by_token db_start ''token-a'' =
     Inr (Some \<lparr>su_id = 1, su_name = ''Alice'', su_leader_card_id = 10\<rparr>)"
    by (simp add: get_user_by_token_def db_start_def users_ab_def)
  have n: "get_user_by_token db_start ''no-such-token'' = Inr None"
    by (simp add: get_user_by_token_def db_start_def users_ab_def)
  show ?thesis
    using a n
      create_room_atomic [of db_start "''token-a''"
        "\<lparr>su_id = 1, su_name = ''Alice'', su_leader_card_id = 10\<rparr>" 5 hard]
      create_room_atomic [of db_start "''no-such-token''" undefined 5 hard]
    by (simp add: db_start_def db_room1_def in_order_default_def)
qed

section \<open>Searching rooms\<close>

lemma append_ids_eq: "append_ids row room_list = room_list @ map r_id row"
  by (induction row arbitrary: room_list) simp_all

text \<open>
  C6. As stated (only rooms whose status is Waiting are returned) the claim fails:
  the \<^verbatim>\<open>SELECT\<close> of \<^verbatim>\<open>search_room\<close> does not read \<^verbatim>\<open>status\<close>. The room of
  \<open>db_dissolved\<close> has status Dissolution and one member, and is returned.
\<close>

theorem search_room_returns_dissolved:
  "map r_status (room_tbl db_dissolved) = [int_of_WaitRoomStatus Dissolution] \<and>
   search_room db_dissolved 5 = [1]"
  by (simp add: search_room_def db_dissolved_def)

text \<open>
  C6, amended. \<^verbatim>\<open>search_room(live_id)\<close> returns exactly the ids of the rooms whose
  \<^verbatim>\<open>live_id\<close> matches and whose \<^verbatim>\<open>joined_user_count\<close> satisfies
  \<open>0 < joined_user_count < 4\<close>, in table order, whatever their status; a full room never
  appears.
\<close>

theorem search_room_exact:
  "search_room d live_id =
     map r_id [r \<leftarrow> room_tbl d. r_live_id r = live_id \<and>
                 0 < r_joined_user_count r \<and> r_joined_user_count r < max_user_count]"
proof -
  have "[r \<leftarrow> room_tbl d. r_live_id r = live_id \<and>
           1 \<le> r_joined_user_count r \<and> r_joined_user_count r \<le> 3] =
        [r \<leftarrow> room_tbl d. r_live_id r = live_id \<and>
           0 < r_joined_user_count r \<and> r_joined_user_count r < max_user_count]"
    by (rule filter_cong) (auto simp: max_user_count_def)
  then show ?thesis
    by (simp only: search_room_def append_ids_eq append_Nil)
qed

section \<open>Polling a room\<close>

text \<open>
  C5. \<^verbatim>\<open>room_wait\<close> is meant to return the status and the member list with the host
  flag, but its first call, \<^verbatim>\<open>get_room_status\<close>, binds \<^verbatim>\<open>id\<close> where the statement
  has \<^verbatim>\<open>:room_id\<close>: for every database and every room id, existing or not, the call
  raises and returns nothing.
\<close>

theorem room_wait_always_raises:
  "room_wait d room_id = Inl StatementError"
  by (simp add: room_wait_def get_room_status_def params_bound_def)

section \<open>Joining a room\<close>

lemma join_room_decided:
  assumes "get_user_by_token d token = Inr user"
    and "[x \<leftarrow> room_tbl d. r_id x = room_id] = [r]"
  shows "join_room d token room_id =
     (if 4 < r_joined_user_count r then (Inr OtherError, d)
      else if r_joined_user_count r = 4 then (Inr RoomFull, d)
      else if r_joined_user_count r < 0 then (Inr Disbanded, d)
      else (case user of
              None \<Rightarrow> (Inl AttributeError, d)
            | Some u \<Rightarrow>
                (Inr Ok,
                 d\<lparr>room_member_tbl := room_member_tbl d @
                      [\<lparr>m_room_id = room_id, m_user_id = su_id u, m_difficulty = 1,
                        m_in_order = r_joined_user_count r + 1\<rparr>],
                   room_tbl := map (\<lambda>x. if r_id x = room_id
                                 then x\<lparr>r_joined_user_count := r_joined_user_count x + 1\<rparr>
                                 else x) (room_tbl d)\<rparr>)))"
  using assms
  by (simp add: join_room_def get_upto_member_room_def get_room_user_count_def
      insert_room_member_def upcount_joined_count_def Let_def split: option.split)

text \<open>
  C2. As stated (a room whose status is Dissolution answers every join with Disbanded)
  the claim fails: \<^verbatim>\<open>get_upto_member_room\<close> decides from \<^verbatim>\<open>joined_user_count\<close>
  alone. The room of \<open>db_dissolved\<close> has status Dissolution; Bob's join returns Ok and
  his membership is inserted.
\<close>

theorem join_dissolved_room_admits:
  "map r_status (room_tbl db_dissolved) = [int_of_WaitRoomStatus Dissolution] \<and>
   fst (join_room db_dissolved ''token-b'' 1) = Inr Ok \<and>
   map m_user_id (members_of (snd (join_room db_dissolved ''token-b'' 1)) 1) = [1, 2]"
  by (simp add: join_room_def get_upto_member_room_def get_room_user_count_def
      insert_room_member_def upcount_joined_count_def get_user_by_token_def members_of_def
      db_dissolved_def users_ab_def)

text \<open>
  C2, amended. For every room whose \<^verbatim>\<open>joined_user_count\<close> is negative, every
  \<^verbatim>\<open>join_room\<close> call on that room returns Disbanded, regardless of the room's status,
  and no membership is inserted (the database is unchanged); and a room answers Disbanded
  only then. The room is the one row of its id, and the token lookup finds one user or
  none.
\<close>

theorem join_room_disbanded:
  assumes "get_user_by_token d token = Inr user"
    and "[x \<leftarrow> room_tbl d. r_id x = room_id] = [r]"
  shows "(r_joined_user_count r < 0 \<longrightarrow> join_room d token room_id = (Inr Disbanded, d)) \<and>
         (fst (join_room d token room_id) = Inr Disbanded \<longrightarrow> r_joined_user_count r < 0)"
  by (simp add: join_room_decided [OF assms] split: option.split)

theorem join_room_disbanded_witness:
  "join_room (db_dissolved\<lparr>room_tbl :=
       [\<lparr>r_id = 1, r_live_id = 5, r_room_master = 1,
         r_joined_user_count = - 1, r_status = 1\<rparr>]\<rparr>) ''token-b'' 1 =
     (Inr Disbanded, db_dissolved\<lparr>room_tbl :=
       [\<lparr>r_id = 1, r_live_id = 5, r_room_master = 1,
         r_joined_user_count = - 1, r_status = 1\<rparr>]\<rparr>)"
proof -
  let ?d = "db_dissolved\<lparr>room_tbl :=
       [\<lparr>r_id = 1, r_live_id = 5, r_room_master = 1,
         r_joined_user_count = - 1, r_status = 1\<rparr>]\<rparr>"
  let ?r = "\<lparr>r_id = 1, r_live_id = 5, r_room_master = 1,
         r_joined_user_count = - 1, r_status = 1\<rparr>"
  have u: "get_user_by_token ?d ''token-b'' =
      Inr (Some \<lparr>su_id = 2, su_name = ''Bob'', su_leader_card_id = 20\<rparr>)"
    by (simp add: get_user_by_token_def db_dissolved_def users_ab_def)
  have f: "[x \<leftarrow> room_tbl ?d. r_id x = 1] = [?r]"
    by simp
  show ?thesis
    using join_room_disbanded [OF u f] by simp
qed




text \<open>
  C8. \<^verbatim>\<open>join_room\<close> never raises \<^verbatim>\<open>InvalidToken\<close>, although \<^verbatim>\<open>create_room\<close> does
  for the same lookup: with a token of no user, a join of the open room 1 of
  \<open>db_room1\<close> raises \<^verbatim>\<open>AttributeError\<close> at \<^verbatim>\<open>user.id\<close>, and a join of the full
  room 1 of \<open>db_full\<close> returns RoomFull as if the caller were known.
\<close>

theorem join_room_unknown_token:
  "get_user_by_token db_room1 ''no-such-token'' = Inr None \<and>
   join_room db_room1 ''no-such-token'' 1 = (Inl AttributeError, db_room1) \<and>
   join_room db_full ''no-such-token'' 1 = (Inr RoomFull, db_full) \<and>
   fst (create_room db_room1 ''no-such-token'' 5 normal) = Inl InvalidToken"
  by (simp add: join_room_def get_upto_member_room_def get_room_user_count_def
      get_user_by_token_def create_room_def db_room1_def db_full_def users_ab_def)

section \<open>Updating a room\<close>

text \<open>
  C9. \<^verbatim>\<open>update_room_status(1, Dissolution)\<close> on \<open>db_two_rooms\<close> sets the status of
  room 2 as well: the \<^verbatim>\<open>UPDATE\<close> has no \<^verbatim>\<open>WHERE\<close>, and the \<^verbatim>\<open>room_id\<close> argument is
  not used. \<^verbatim>\<open>downcount_joined_count\<close> raises and changes nothing.
\<close>

theorem update_room_status_all_rooms:
  "map r_id (room_tbl db_two_rooms) = [1, 2] \<and>
   map r_status (room_tbl db_two_rooms) = [1, 1] \<and>
   map r_status (room_tbl (update_room_status db_two_rooms 1 Dissolution)) = [3, 3] \<and>
   downcount_joined_count db_two_rooms 1 = (Inl StatementError, db_two_rooms)"
  by (simp add: update_room_status_def downcount_joined_count_def params_bound_def
      db_two_rooms_def)

section \<open>Difficulty\<close>

text \<open>
  C10. As stated (a join stores the difficulty the joining player selected, for every
  selectable difficulty) the claim fails: \<^verbatim>\<open>join_room\<close> takes no difficulty and
  \<^verbatim>\<open>insert_room_member\<close> writes the constant 1. Bob's successful join of room 1 of
  \<open>db_room1\<close> stores 1, which is not the selectable difficulty \<open>hard\<close>.
\<close>

theorem join_stores_normal_not_hard:
  "fst (join_room db_room1 ''token-b'' 1) = Inr Ok \<and>
   map m_difficulty (members_of (snd (join_room db_room1 ''token-b'' 1)) 1) = [2, 1] \<and>
   int_of_LiveDifficulty hard \<noteq> 1"
  by (simp add: join_room_def get_upto_member_room_def get_room_user_count_def
      insert_room_member_def upcount_joined_count_def get_user_by_token_def members_of_def
      db_room1_def users_ab_def)

text \<open>
  C10, amended. The creator's membership stores the difficulty passed to
  \<^verbatim>\<open>create_room\<close>; \<^verbatim>\<open>join_room\<close> takes no difficulty, and the membership inserted by
  every successful join stores \<open>normal\<close> (1).
\<close>

theorem difficulty_recorded:
  "(fst (create_room d token live_id difficulty) = Inr room_id \<longrightarrow>
      (\<exists>m. room_member_tbl (snd (create_room d token live_id difficulty)) =
             room_member_tbl d @ [m] \<and>
           m_room_id m = room_id \<and> m_difficulty m = int_of_LiveDifficulty difficulty)) \<and>
   (fst (join_room d token room_id) = Inr Ok \<longrightarrow>
      (\<exists>m. room_member_tbl (snd (join_room d token room_id)) = room_member_tbl d @ [m] \<and>
           m_room_id m = room_id \<and> m_difficulty m = int_of_LiveDifficulty normal))"
proof (intro conjI impI)
  assume "fst (create_room d token live_id difficulty) = Inr room_id"
  then show "\<exists>m. room_member_tbl (snd (create_room d token live_id difficulty)) =
             room_member_tbl d @ [m] \<and>
           m_room_id m = room_id \<and> m_difficulty m = int_of_LiveDifficulty difficulty"
    by (auto simp: create_room_def Let_def split: sum.splits option.splits)
next
  assume ok: "fst (join_room d token room_id) = Inr Ok"
  then show "\<exists>m. room_member_tbl (snd (join_room d token room_id)) =
      room_member_tbl d @ [m] \<and>
      m_room_id m = room_id \<and> m_difficulty m = int_of_LiveDifficulty normal"
    by (auto simp: join_room_def get_upto_member_room_def get_room_user_count_def
        insert_room_member_def upcount_joined_count_def Let_def
        split: sum.splits option.splits if_splits)
qed

theorem difficulty_recorded_witness:
  "fst (create_room db_start ''token-a'' 5 hard) = Inr 1 \<and>
   fst (join_room db_room1 ''token-b'' 1) = Inr Ok \<and>
   (\<exists>m. room_member_tbl (snd (create_room db_start ''token-a'' 5 hard)) =
          room_member_tbl db_start @ [m] \<and> m_room_id m = 1 \<and> m_difficulty m = 2) \<and>
   (\<exists>m. room_member_tbl (snd (join_room db_room1 ''token-b'' 1)) =
          room_member_tbl db_room1 @ [m] \<and> m_room_id m = 1 \<and> m_difficulty m = 1)"
proof -
  have c: "fst (create_room db_start ''token-a'' 5 hard) = Inr 1"
    by (simp add: create_room_def get_user_by_token_def db_start_def users_ab_def)
  have j: "fst (join_room db_room1 ''token-b'' 1) = Inr Ok"
    by (simp add: join_room_def get_upto_member_room_def get_room_user_count_def
        insert_room_member_def get_user_by_token_def db_room1_def users_ab_def)
  show ?thesis
    using c j difficulty_recorded [of db_start "''token-a''" 5 hard 1]
      difficulty_recorded [of db_room1 "''token-b''" 5 hard 1]
    by simp
qed

section \<open>Join order\<close>

lemma join_room_Ok:
  assumes "fst (join_room d token room_id) = Inr Ok"
  shows "\<exists>u r. get_user_by_token d token = Inr (Some u) \<and>
        [x \<leftarrow> room_tbl d. r_id x = room_id] = [r] \<and>
        0 \<le> r_joined_user_count r \<and> r_joined_user_count r < 4 \<and>
        snd (join_room d token room_id) =
          d\<lparr>room_member_tbl := room_member_tbl d @
                  [\<lparr>m_room_id = room_id, m_user_id = su_id u, m_difficulty = 1,
                    m_in_order = r_joined_user_count r + 1\<rparr>],
             room_tbl := map (\<lambda>x. if r_id x = room_id
                              then x\<lparr>r_joined_user_count := r_joined_user_count x + 1\<rparr>
                              else x) (room_tbl d)\<rparr>"
  using assms
  by (auto simp: join_room_def get_upto_member_room_def get_room_user_count_def
      insert_room_member_def upcount_joined_count_def Let_def one_row_Inr map_eq_Cons_conv
      split: sum.splits option.splits if_splits)

lemma join_room_Ok_orders:
  assumes "fst (join_room d token room_id) = Inr Ok"
  shows "\<exists>r. [x \<leftarrow> room_tbl d. r_id x = room_id] = [r] \<and>
        map m_in_order (members_of (snd (join_room d token room_id)) room_id) =
          map m_in_order (members_of d room_id) @ [r_joined_user_count r + 1]"
  using join_room_Ok[OF assms] by (auto simp: members_of_def)

lemma keys_ok_reachable_seq: "reachable_seq d \<Longrightarrow> keys_ok d"
proof (induction rule: reachable_seq.induct)
  case (start d)
  then show ?case by (simp add: keys_ok_def)
next
  case (step d op)
  then show ?case by (simp add: keys_ok_run_op_seq)
qed

lemma upto_snoc: "0 \<le> c \<Longrightarrow> [1..c] @ [c + 1] = [1..c + 1]"
  using upto_rec2 [of 1 "c + 1"] by simp

lemma join_order_inv_create:
  assumes "keys_ok d" and "join_order_inv d"
  shows "join_order_inv (d\<lparr>room_tbl := room_tbl d @
                  [\<lparr>r_id = room_lastrowid d, r_live_id = l, r_room_master = h,
                    r_joined_user_count = 1, r_status = 1\<rparr>],
                room_lastrowid := room_lastrowid d + 1,
                room_member_tbl := room_member_tbl d @
                  [\<lparr>m_room_id = room_lastrowid d, m_user_id = h,
                    m_difficulty = df, m_in_order = in_order_default\<rparr>]\<rparr>)"
  using assms members_of_fresh[OF assms(1)]
  by (auto simp: join_order_inv_def members_of_def keys_ok_def in_order_default_def)

lemma join_order_inv_join:
  assumes "join_order_inv d" and "[x \<leftarrow> room_tbl d. r_id x = room_id] = [r]"
    and "0 \<le> r_joined_user_count r"
  shows "join_order_inv (d\<lparr>room_member_tbl := room_member_tbl d @
                  [\<lparr>m_room_id = room_id, m_user_id = uid, m_difficulty = df,
                    m_in_order = r_joined_user_count r + 1\<rparr>],
                room_tbl := map (\<lambda>x. if r_id x = room_id
                              then x\<lparr>r_joined_user_count := r_joined_user_count x + 1\<rparr>
                              else x) (room_tbl d)\<rparr>)"
  unfolding join_order_inv_def
proof
  fix r'
  let ?d' = "d\<lparr>room_member_tbl := room_member_tbl d @
                  [\<lparr>m_room_id = room_id, m_user_id = uid, m_difficulty = df,
                    m_in_order = r_joined_user_count r + 1\<rparr>],
                room_tbl := map (\<lambda>x. if r_id x = room_id
                              then x\<lparr>r_joined_user_count := r_joined_user_count x + 1\<rparr>
                              else x) (room_tbl d)\<rparr>"
  assume "r' \<in> set (room_tbl ?d')"
  then obtain x where x: "x \<in> set (room_tbl d)"
    and r': "r' = (if r_id x = room_id
                    then x\<lparr>r_joined_user_count := r_joined_user_count x + 1\<rparr> else x)"
    by auto
  from assms(1) x
  have inv: "map m_in_order (members_of d (r_id x)) = [1..r_joined_user_count x]"
    by (simp add: join_order_inv_def)
  show "map m_in_order (members_of ?d' (r_id r')) = [1..r_joined_user_count r']"
  proof (cases "r_id x = room_id")
    case True
    then have "x = r" using filter_single_mem[OF assms(2) x] by simp
    then show ?thesis using True r' inv assms(3) upto_snoc[OF assms(3)]
      by (simp add: members_of_def)
  next
    case False
    then show ?thesis using r' inv by (simp add: members_of_def)
  qed
qed

lemma join_order_inv_status:
  "join_order_inv d \<Longrightarrow> join_order_inv (update_room_status d room_id status)"
  by (auto simp: join_order_inv_def update_room_status_def members_of_def)

lemma join_order_inv_run_op_seq:
  assumes "keys_ok d" and "join_order_inv d"
  shows "join_order_inv (run_op_seq op d)"
proof (cases op)
  case (CreateRoom token live_id difficulty)
  obtain res d' where c: "create_room d token live_id difficulty = (res, d')"
    by (cases "create_room d token live_id difficulty")
  from create_room_cases[OF c] assms show ?thesis
    using CreateRoom c join_order_inv_create[OF assms]
    by auto
next
  case (JoinRoom token room_id)
  obtain res d' where j: "join_room d token room_id = (res, d')"
    by (cases "join_room d token room_id")
  from join_room_cases[OF j] assms show ?thesis
    using JoinRoom j join_order_inv_join[OF assms(2)]
    by auto
qed (use assms in \<open>simp_all add: join_order_inv_status downcount_unchanged\<close>)

lemma join_order_inv_reachable_seq: "reachable_seq d \<Longrightarrow> join_order_inv d"
proof (induction rule: reachable_seq.induct)
  case (start d)
  then show ?case by (simp add: join_order_inv_def)
next
  case (step d op)
  then show ?case by (simp add: join_order_inv_run_op_seq keys_ok_reachable_seq)
qed

text \<open>
  C3. As stated (the committed memberships of every room have pairwise distinct join
  orders) the claim fails: \<^verbatim>\<open>join_room\<close> reads the count in one transaction and
  inserts the row with the count plus one in another. When Dave's and Eve's joins of
  room 1 of \<open>db_three\<close> are in flight together, both read the count 3 and both
  memberships are committed with join order 4.
\<close>

theorem overlapping_joins_repeat_join_order:
  "reachable_seq db_three \<and>
   map m_in_order (members_of db_three 1) = [1, 2, 3] \<and>
   fst (run_schedule race_schedule (race_calls, db_three)) =
     [Returned (Inr Ok), Returned (Inr Ok)] \<and>
   map m_in_order (members_of db_raced 1) = [1, 2, 3, 4, 4] \<and>
   \<not> distinct (map m_in_order (members_of db_raced 1))"
  unfolding db_raced_def race_result
  using reachable_seq_db_three
  by (simp add: db_three_eq members_of_def)

text \<open>
  C3, amended. In every database that calls run one after the other produce, the
  memberships of every room have, in insertion order, the join orders
  \<open>1, 2, \<dots>, joined_user_count\<close>: pairwise distinct, contiguous and ascending. The
  membership \<^verbatim>\<open>create_room\<close> inserts is the only one of the new room and has join
  order 1, and a successful \<^verbatim>\<open>join_room\<close> with no other call in between appends a
  membership whose join order is the room's \<^verbatim>\<open>joined_user_count\<close> plus one.
\<close>

theorem join_order_contiguous:
  assumes "reachable_seq d"
  shows "(\<forall>r \<in> set (room_tbl d).
            map m_in_order (members_of d (r_id r)) = [1..r_joined_user_count r] \<and>
            distinct (map m_in_order (members_of d (r_id r)))) \<and>
         (\<forall>token live_id difficulty room_id.
            fst (create_room d token live_id difficulty) = Inr room_id \<longrightarrow>
            map m_in_order
              (members_of (snd (create_room d token live_id difficulty)) room_id) = [1]) \<and>
         (\<forall>token r.
            r \<in> set (room_tbl d) \<and> fst (join_room d token (r_id r)) = Inr Ok \<longrightarrow>
            map m_in_order (members_of (snd (join_room d token (r_id r))) (r_id r)) =
              map m_in_order (members_of d (r_id r)) @ [r_joined_user_count r + 1])"
proof (intro conjI ballI allI impI)
  fix r assume r: "r \<in> set (room_tbl d)"
  with join_order_inv_reachable_seq[OF assms]
  show eq: "map m_in_order (members_of d (r_id r)) = [1..r_joined_user_count r]"
    by (simp add: join_order_inv_def)
  show "distinct (map m_in_order (members_of d (r_id r)))"
    unfolding eq by simp
next
  fix token live_id difficulty room_id
  assume ok: "fst (create_room d token live_id difficulty) = Inr room_id"
  then have "room_id = room_lastrowid d \<and>
      (\<exists>m. room_member_tbl (snd (create_room d token live_id difficulty)) =
             room_member_tbl d @ [m] \<and>
           m_room_id m = room_id \<and> m_in_order m = in_order_default)"
    by (auto simp: create_room_def Let_def split: sum.splits option.splits)
  with members_of_fresh[OF keys_ok_reachable_seq[OF assms]]
  show "map m_in_order
      (members_of (snd (create_room d token live_id difficulty)) room_id) = [1]"
    by (auto simp: members_of_def in_order_default_def)
next
  fix token r
  assume a: "r \<in> set (room_tbl d) \<and> fst (join_room d token (r_id r)) = Inr Ok"
  then have "fst (join_room d token (r_id r)) = Inr Ok" by simp
  from join_room_Ok_orders[OF this] obtain r0 where
    f: "[x \<leftarrow> room_tbl d. r_id x = r_id r] = [r0]" and
    o: "map m_in_order (members_of (snd (join_room d token (r_id r))) (r_id r)) =
          map m_in_order (members_of d (r_id r)) @ [r_joined_user_count r0 + 1]"
    by blast
  have "r = r0" using filter_single_mem[OF f, of r] a by simp
  then show "map m_in_order (members_of (snd (join_room d token (r_id r))) (r_id r)) =
      map m_in_order (members_of d (r_id r)) @ [r_joined_user_count r + 1]"
    using o by simp
qed

theorem join_order_contiguous_witness:
  "reachable_seq (run_op_seq (JoinRoom ''token-b'' 1) (run_op_seq (CreateRoom ''token-a'' 5 hard) db_start)) \<and>
   map m_in_order
     (members_of (run_op_seq (JoinRoom ''token-b'' 1) (run_op_seq (CreateRoom ''token-a'' 5 hard) db_start)) 1)
     = [1, 2]"
proof -
  let ?d = "run_op_seq (JoinRoom ''token-b'' 1) (run_op_seq (CreateRoom ''token-a'' 5 hard) db_start)"
  let ?r = "\<lparr>r_id = 1, r_live_id = 5, r_room_master = 1,
              r_joined_user_count = 2, r_status = 1\<rparr>"
  have s: "reachable_seq db_start"
    by (rule reachable_seq.start) (simp_all add: db_start_def)
  have re: "reachable_seq ?d"
    by (intro reachable_seq.step s)
  have c: "run_op_seq (CreateRoom ''token-a'' 5 hard) db_start = db_room1"
    by (simp add: create_room_def get_user_by_token_def db_start_def db_room1_def
        users_ab_def in_order_default_def)
  have rooms: "room_tbl ?d = [?r]"
    unfolding c
    by (simp add: join_room_def get_upto_member_room_def get_room_user_count_def
        insert_room_member_def upcount_joined_count_def get_user_by_token_def
        db_room1_def users_ab_def)
  have "?r \<in> set (room_tbl ?d)"
    unfolding rooms by simp
  with join_order_contiguous [OF re]
  have "map m_in_order (members_of ?d (r_id ?r)) = [1..r_joined_user_count ?r]"
    by blast
  moreover have "[1..2::int] = [1, 2]"
    by (simp add: upto.simps)
  ultimately show ?thesis
    using re by simp
qed

end
